theory Spec2Isabelle
  imports Main
begin

section \<open>Strings\<close>

text \<open>
  A Python \<open>str\<close> is modelled as a \<open>string\<close>, one \<open>char\<close> per character, so that
  \<open>length\<close> is Python's \<open>len\<close> and \<open>take n\<close> is the slice \<open>[:n]\<close>. The case conversions
  below are those of Python on ASCII text: they convert the 26 ASCII letters and leave
  every other ASCII character alone. Python also converts letters outside ASCII, which
  these functions do not; what is proved about the result of a case conversion is stated
  for strings written in ASCII. The types of the topology document (graph, channel,
  gpu, cpu, pci, nvlink, net, nic) are ASCII.
\<close>

definition lower_letters :: string where
  "lower_letters = ''abcdefghijklmnopqrstuvwxyz''"

definition upper_letters :: string where
  "upper_letters = ''ABCDEFGHIJKLMNOPQRSTUVWXYZ''"

definition to_upper :: "char \<Rightarrow> char" where
  "to_upper c = (case map_of (zip lower_letters upper_letters) c of None \<Rightarrow> c | Some u \<Rightarrow> u)"

definition to_lower :: "char \<Rightarrow> char" where
  "to_lower c = (case map_of (zip upper_letters lower_letters) c of None \<Rightarrow> c | Some l \<Rightarrow> l)"

text \<open>A string written in ASCII: no character has its eighth bit set.\<close>

definition is_ascii :: "string \<Rightarrow> bool" where
  "is_ascii s = list_all (\<lambda>c. \<not> digit7 c) s"

text \<open>\<open>s.upper()\<close> on an ASCII string.\<close>

definition upper :: "string \<Rightarrow> string" where
  "upper s = map to_upper s"

text \<open>
  \<open>s.capitalize()\<close> on an ASCII string: the first character in upper case, all the others
  in lower case.
\<close>

definition capitalize :: "string \<Rightarrow> string" where
  "capitalize s = (case s of [] \<Rightarrow> [] | c # cs \<Rightarrow> to_upper c # map to_lower cs)"

text \<open>\<open>s.replace(old, new)\<close> for one-character \<open>old\<close> and \<open>new\<close>.\<close>

definition replace :: "char \<Rightarrow> char \<Rightarrow> string \<Rightarrow> string" where
  "replace old new s = map (\<lambda>c. if c = old then new else c) s"

text \<open>\<open>str(n)\<close> for a Python integer.\<close>

fun digits :: "nat \<Rightarrow> string" where
  "digits n =
     (if n < 10 then [''0123456789'' ! n]
      else digits (n div 10) @ [''0123456789'' ! (n mod 10)])"

declare digits.simps [simp del]

definition str_int :: "int \<Rightarrow> string" where
  "str_int i = (if i < 0 then CHR ''-'' # digits (nat (- i)) else digits (nat i))"


section \<open>The topology document\<close>

text \<open>
  An \<open>xml.etree.ElementTree.Element\<close>: its tag, its attribute dictionary in document
  order, and its child elements in document order.
\<close>

datatype element =
  Element (tag: string) (attrib: "(string \<times> string) list") (children: "element list")


section \<open>The drawing\<close>

text \<open>
  A \<open>graphviz.Digraph\<close> keeps the statements added to it in a list, in the order of the
  calls: \<open>node(name, **attrs)\<close>, \<open>edge(tail, head, **attrs)\<close> and \<open>attr(kw, **attrs)\<close>
  each append one statement. A second \<open>node\<close> call with a name already used appends a
  second statement; it is not rejected and the name is not changed.
\<close>

datatype statement =
  Node string "(string \<times> string) list"
| Edge string string "(string \<times> string) list"
| Attr "string option" "(string \<times> string) list"

record digraph =
  comment :: string
  body :: "statement list"

definition add_statement :: "statement \<Rightarrow> digraph \<Rightarrow> digraph" where
  "add_statement s graph = graph\<lparr>body := body graph @ [s]\<rparr>"


section \<open>xml\_to\_png.py\<close>

definition colors :: "(string \<times> string) list" where
  "colors =
     [(''graphs'', ''#F8F9FA''),
      (''graph'', ''#E3F2FD''),
      (''channel'', ''#E0F2F1''),
      (''gpu'', ''#E8F5E9''),
      (''cpu'', ''#F3E5F5''),
      (''pci'', ''#FFEBEE''),
      (''nvlink'', ''#FFF3E0''),
      (''net'', ''#FFE0B2''),
      (''nic'', ''#FFE0B2'')]"

text \<open>\<open>colors.get(dev, 'white')\<close>\<close>

definition color_of :: "string \<Rightarrow> string" where
  "color_of dev = (case map_of colors dev of None \<Rightarrow> ''white'' | Some c \<Rightarrow> c)"

subsection \<open>format\_attributes\<close>

definition attr_row :: "string \<Rightarrow> string \<Rightarrow> string" where
  \<open>attr_row k v =
     ''<TR><TD ALIGN="LEFT"><FONT POINT-SIZE="10">'' @ k @ ''</FONT></TD>'' @
     ''<TD ALIGN="LEFT"><FONT POINT-SIZE="10">'' @ v @ ''</FONT></TD></TR>''\<close>

text \<open>The loop over \<open>attrs.items()\<close>, with \<open>rows\<close> as the accumulator.\<close>

fun format_rows :: "string list \<Rightarrow> (string \<times> string) list \<Rightarrow> string list" where
  "format_rows rows [] = rows"
| "format_rows rows ((k, v) # items) =
     (let v' = (if 30 < length v then take 27 v @ ''...'' else v)
      in format_rows (rows @ [attr_row k v']) items)"

definition format_attributes :: "(string \<times> string) list \<Rightarrow> string" where
  "format_attributes attrs = (if attrs = [] then [] else concat (format_rows [] attrs))"

subsection \<open>build\_topology\<close>

definition attr_map :: "(string \<times> string) list" where
  "attr_map =
     [(''cpu'', ''numaid''),
      (''pci'', ''busid''),
      (''gpu'', ''dev''),
      (''nvlink'', ''target''),
      (''net'', ''name''),
      (''nic'', ''name''),
      (''graph'', ''id'')]"

text \<open>
  The value of the local variable \<open>res\<close> after the block that looks the identifier up:
  \<open>None\<close> when the tag has no entry in \<open>attr_map\<close> or the element lacks the attribute,
  otherwise the attribute's value, with the colons replaced when the value is not empty.
\<close>

definition res_of :: "element \<Rightarrow> string option" where
  "res_of e =
     (case map_of attr_map (tag e) of
        None \<Rightarrow> None
      | Some attr_name \<Rightarrow>
          (if attr_name = [] then None
           else (case map_of (attrib e) attr_name of
                   None \<Rightarrow> None
                 | Some res \<Rightarrow>
                     (if res \<noteq> [] then Some (replace (CHR '':'') (CHR ''_'') res)
                      else Some res))))"

text \<open>Python's truth value of \<open>res\<close>: false for \<open>None\<close> and for the empty string.\<close>

fun truthy :: "string option \<Rightarrow> bool" where
  "truthy None = False"
| "truthy (Some s) = (s \<noteq> [])"

definition node_name :: "element \<Rightarrow> string" where
  "node_name e =
     (if truthy (res_of e) then tag e @ ''_'' @ the (res_of e) else tag e)"

definition title :: "element \<Rightarrow> string" where
  "title e =
     (let dev = tag e;
          t = (if dev \<in> set [''gpu'', ''cpu''] then upper dev else capitalize dev)
      in if truthy (res_of e) then t @ '' '' @ the (res_of e) else t)"

definition label :: "element \<Rightarrow> string" where
  \<open>label e =
     (let attrs_html = format_attributes (attrib e) in
      if attrs_html \<noteq> [] then
        ''<<TABLE BORDER="0" CELLBORDER="1" CELLSPACING="0" CELLPADDING="4">\<newline>'' @
        ''            <TR><TD BGCOLOR="'' @ color_of (tag e) @ ''"><B>'' @ title e @
        ''</B></TD></TR>\<newline>'' @
        ''            '' @ attrs_html @ ''\<newline>'' @
        ''            </TABLE>>''
      else ''<<B>'' @ title e @ ''</B>>'')\<close>

text \<open>The statement added by the call \<open>graph.node(node_name, label=..., ...)\<close>.\<close>

definition node_statement :: "element \<Rightarrow> statement" where
  "node_statement e =
     Node (node_name e)
       [(''label'', label e),
        (''shape'', ''box''),
        (''style'', ''rounded,filled''),
        (''fillcolor'', color_of (tag e)),
        (''penwidth'', ''1.5'')]"

text \<open>The statement added by the call \<open>graph.edge(parent_node, node_name, ...)\<close>.\<close>

definition edge_statement :: "string \<Rightarrow> string \<Rightarrow> statement" where
  "edge_statement parent_node name =
     Edge parent_node name
       [(''penwidth'', ''1.5''), (''color'', ''#666666''), (''arrowsize'', ''0.7'')]"

text \<open>
  \<open>build_topology\<close> mutates the graph it is given; here it returns the graph after the
  call. \<open>build_children\<close> is its loop over the child elements. The recursion follows the
  document, which is a finite tree, so the walk returns for every document; the
  interpreter's bound on the depth of recursion is a resource limit and is not part of
  the model.
\<close>

fun build_topology :: "digraph \<Rightarrow> element \<Rightarrow> string option \<Rightarrow> int \<Rightarrow> digraph"
  and build_children :: "digraph \<Rightarrow> element list \<Rightarrow> string \<Rightarrow> int \<Rightarrow> digraph" where
  "build_topology graph (Element dev attrs elems) parent_node rank =
     (let name = node_name (Element dev attrs elems);
          graph1 = add_statement (node_statement (Element dev attrs elems)) graph;
          graph2 = (case parent_node of
                      None \<Rightarrow> graph1
                    | Some p \<Rightarrow> add_statement (edge_statement p name) graph1)
      in build_children graph2 elems name (rank + 1))"
| "build_children graph [] name rank = graph"
| "build_children graph (child_element # elems) name rank =
     build_children (build_topology graph child_element (Some name) rank) elems name rank"

subsection \<open>main\<close>

text \<open>The graph as \<open>main\<close> has it before the walk: the constructor and three \<open>attr\<close> calls.\<close>

definition initial_graph :: digraph where
  "initial_graph =
     \<lparr>comment = ''NCCL Topology Visualization'',
      body =
        [Attr None
           [(''rankdir'', ''TB''), (''splines'', ''ortho''), (''nodesep'', ''0.5''),
            (''ranksep'', ''0.7''), (''concentrate'', ''true''), (''bgcolor'', ''white''),
            (''fontname'', ''Helvetica'')],
         Attr (Some ''node'')
           [(''shape'', ''box''), (''style'', ''rounded,filled''),
            (''fontname'', ''Helvetica''), (''margin'', ''0.2'')],
         Attr (Some ''edge'')
           [(''fontname'', ''Helvetica''), (''color'', ''#666666'')]]\<rparr>"

text \<open>The call \<open>build_topology(graph, root)\<close> of \<open>main\<close>, with the default arguments.\<close>

definition topology_graph :: "element \<Rightarrow> digraph" where
  "topology_graph root = build_topology initial_graph root None 0"


subsection \<open>The command line\<close>

text \<open>
  \<open>getopt.getopt(args, shortopts)\<close> of the standard library, called without long options.
  \<open>None\<close> stands for the exception \<open>GetoptError\<close>.

  \<open>short_has_arg\<close>: whether the option letter takes an argument; an unknown letter raises.
\<close>

fun short_has_arg :: "char \<Rightarrow> string \<Rightarrow> bool option" where
  "short_has_arg opt [] = None"
| "short_has_arg opt (c # shortopts) =
     (if opt = c \<and> c \<noteq> CHR '':'' then Some (take 1 shortopts = '':'')
      else short_has_arg opt shortopts)"

text \<open>
  \<open>do_shorts\<close>: the letters of one argument after its dash. A letter that takes an argument
  takes the rest of the word, or the next word when nothing is left of this one.
\<close>

fun do_shorts ::
  "(string \<times> string) list \<Rightarrow> string \<Rightarrow> string \<Rightarrow> string list \<Rightarrow>
     ((string \<times> string) list \<times> string list) option" where
  "do_shorts opts [] shortopts args = Some (opts, args)"
| "do_shorts opts (opt # optstring) shortopts args =
     (case short_has_arg opt shortopts of
        None \<Rightarrow> None
      | Some True \<Rightarrow>
          (if optstring = [] then
             (case args of
                [] \<Rightarrow> None
              | optarg # args' \<Rightarrow> Some (opts @ [([CHR ''-'', opt], optarg)], args'))
           else Some (opts @ [([CHR ''-'', opt], optstring)], args))
      | Some False \<Rightarrow> do_shorts (opts @ [([CHR ''-'', opt], [])]) optstring shortopts args)"

lemma do_shorts_length:
  "do_shorts opts optstring shortopts args = Some (opts', args') \<Longrightarrow> length args' \<le> length args"
  by (induction opts optstring shortopts args rule: do_shorts.induct)
     (auto split: option.splits bool.splits if_splits list.splits)

text \<open>
  The loop of \<open>getopt\<close>: options are read up to the first word that does not start with a
  dash, a lone dash, or \<open>--\<close>. With no long options declared, every word starting with
  \<open>--\<close> other than \<open>--\<close> itself is not recognized.
\<close>

function getopt ::
  "(string \<times> string) list \<Rightarrow> string list \<Rightarrow> string \<Rightarrow>
     ((string \<times> string) list \<times> string list) option" where
  "getopt opts [] shortopts = Some (opts, [])"
| "getopt opts (a # args) shortopts =
     (if take 1 a = ''-'' \<and> a \<noteq> ''-'' then
        (if a = ''--'' then Some (opts, args)
         else if take 2 a = ''--'' then None
         else (case do_shorts opts (drop 1 a) shortopts args of
                 None \<Rightarrow> None
               | Some (opts', args') \<Rightarrow> getopt opts' args' shortopts))
      else Some (opts, a # args))"
  by pat_completeness auto
termination
  by (relation "measure (\<lambda>(opts, args, shortopts). length args)")
     (auto dest: do_shorts_length)

datatype renderer_end = Exit int | Calls_main string string

record renderer_run =
  printed :: "string list"
  ending :: renderer_end

definition usage :: string where
  "usage = ''Usage: python3 xml_to_png_pretty.py -i input_file_name -o output_file_name''"

text \<open>
  The loop over the parsed options. \<open>None\<close>: a \<open>-h\<close> was met (usage is printed and the
  program exits); otherwise the values of \<open>input_file\<close> and \<open>output_file\<close> after the loop.
\<close>

fun scan_opts ::
  "(string \<times> string) list \<Rightarrow> string option \<Rightarrow> string option \<Rightarrow>
     (string option \<times> string option) option" where
  "scan_opts [] input_file output_file = Some (input_file, output_file)"
| "scan_opts ((opt, arg) # opts) input_file output_file =
     (if opt = ''-h'' then None
      else if opt = ''-i'' then scan_opts opts (Some arg) output_file
      else if opt = ''-o'' then scan_opts opts input_file (Some arg)
      else scan_opts opts input_file output_file)"

text \<open>
  The block under \<open>if __name__ == "__main__"\<close>, as a function of \<open>sys.argv\<close>. \<open>sys.exit()\<close>
  without an argument ends the process with code 0, and \<open>SystemExit\<close> is not a
  \<open>GetoptError\<close>, so the handler does not catch it.
\<close>

definition xml_to_png :: "string list \<Rightarrow> renderer_run" where
  "xml_to_png argv =
     (if length argv \<noteq> 5 then \<lparr>printed = [usage], ending = Exit 1\<rparr>
      else
        (case getopt [] (drop 1 argv) ''hi:o:'' of
           None \<Rightarrow> \<lparr>printed = [usage], ending = Exit 1\<rparr>
         | Some (opts, args) \<Rightarrow>
             (case scan_opts opts None None of
                None \<Rightarrow> \<lparr>printed = [usage], ending = Exit 0\<rparr>
              | Some (input_file, output_file) \<Rightarrow>
                  (if truthy input_file \<and> truthy output_file
                   then \<lparr>printed = [], ending = Calls_main (the input_file) (the output_file)\<rparr>
                   else \<lparr>printed = [usage], ending = Exit 1\<rparr>))))"


section \<open>dump\_topo.py\<close>

text \<open>
  What \<open>int(os.environ[name])\<close> makes of a variable of the launch environment: the variable
  is not set (\<open>KeyError\<close>), its text is not an integer literal (\<open>ValueError\<close>), or it is the
  integer given.
\<close>

datatype env_entry = Unset | Not_an_integer | Num int

datatype py_exception = KeyError string | ValueError string

definition environ_int :: "(string \<Rightarrow> env_entry) \<Rightarrow> string \<Rightarrow> py_exception + int" where
  "environ_int environ name =
     (case environ name of
        Unset \<Rightarrow> Inl (KeyError name)
      | Not_an_integer \<Rightarrow> Inl (ValueError name)
      | Num n \<Rightarrow> Inr n)"

text \<open>
  How a process of the trigger ends: \<open>sys.exit(code)\<close>, an uncaught exception, a call into
  the device or communication library that does not return normally, or the return of
  \<open>main\<close>.
\<close>

datatype trigger_end = Sys_exit int | Raised py_exception | Library_call_failed | Returned

record trigger_run =
  stdout :: "string list"
  topo_dump_file :: "string option"
  finish :: trigger_end

text \<open>
  \<open>main(out_file)\<close> of one process. The inputs from outside the program are the launch
  environment, the answers of \<open>torch.cuda.is_available()\<close> and \<open>torch.cuda.device_count()\<close>,
  and whether the calls \<open>set_device\<close>, \<open>init_process_group\<close>, \<open>barrier\<close> and
  \<open>destroy_process_group\<close> all return. \<open>topo_dump_file\<close> is the value the process has stored
  under \<open>NCCL_TOPO_DUMP_FILE\<close>, if it has.
\<close>

definition dump_topo_main ::
  "(string \<Rightarrow> env_entry) \<Rightarrow> bool \<Rightarrow> int \<Rightarrow> bool \<Rightarrow> string \<Rightarrow> trigger_run" where
  "dump_topo_main environ is_available device_count library_calls_return out_file =
     (case environ_int environ ''RANK'' of
        Inl exn \<Rightarrow> \<lparr>stdout = [], topo_dump_file = None, finish = Raised exn\<rparr>
      | Inr rank \<Rightarrow>
     (case environ_int environ ''LOCAL_RANK'' of
        Inl exn \<Rightarrow> \<lparr>stdout = [], topo_dump_file = None, finish = Raised exn\<rparr>
      | Inr local_rank \<Rightarrow>
     (let dump = (if rank = 0 then Some out_file else None) in
      if \<not> is_available then
        \<lparr>stdout = [''CUDA is not available. Run this on a GPU machine.''],
         topo_dump_file = dump, finish = Sys_exit 1\<rparr>
      else
     (let ndev = device_count in
      case environ_int environ ''WORLD_SIZE'' of
        Inl exn \<Rightarrow> \<lparr>stdout = [], topo_dump_file = dump, finish = Raised exn\<rparr>
      | Inr world_size \<Rightarrow>
          if world_size > ndev then
            \<lparr>stdout =
               (if rank = 0 then
                  [''Error: world size ('' @ str_int world_size @
                   '') is greater than number of GPUs ('' @ str_int ndev @ '').'']
                else []),
             topo_dump_file = dump, finish = Sys_exit 1\<rparr>
          else if \<not> library_calls_return then
            \<lparr>stdout = [], topo_dump_file = dump, finish = Library_call_failed\<rparr>
          else
            \<lparr>stdout =
               (if rank = 0 then [''NCCL topology written to: '' @ out_file] else []),
             topo_dump_file = dump, finish = Returned\<rparr>))))"

text \<open>The block under \<open>if __name__ == "__main__"\<close>.\<close>

definition dump_topo ::
  "string list \<Rightarrow> (string \<Rightarrow> env_entry) \<Rightarrow> bool \<Rightarrow> int \<Rightarrow> bool \<Rightarrow> trigger_run" where
  "dump_topo argv environ is_available device_count library_calls_return =
     (if length argv \<noteq> 2 then
        \<lparr>stdout = [''Usage: torchrun --nproc_per_node=<num_gpus> dump_topo.py <output_file>''],
         topo_dump_file = None, finish = Sys_exit 1\<rparr>
      else dump_topo_main environ is_available device_count library_calls_return (argv ! 1))"


section \<open>Notions used to state the properties\<close>

text \<open>The elements of a document in document order (pre-order), the root first.\<close>

fun elements :: "element \<Rightarrow> element list"
  and elements_list :: "element list \<Rightarrow> element list" where
  "elements (Element dev attrs elems) = Element dev attrs elems # elements_list elems"
| "elements_list [] = []"
| "elements_list (e # es) = elements e @ elements_list es"

text \<open>The parent-child pairs of a document, in the order in which the walk meets the child.\<close>

fun child_pairs :: "element \<Rightarrow> (element \<times> element) list"
  and child_pairs_list :: "element \<Rightarrow> element list \<Rightarrow> (element \<times> element) list" where
  "child_pairs (Element dev attrs elems) =
     child_pairs_list (Element dev attrs elems) elems"
| "child_pairs_list p [] = []"
| "child_pairs_list p (e # es) = (p, e) # child_pairs e @ child_pairs_list p es"

text \<open>The node statements and the edge statements of a drawing, in creation order.\<close>

fun is_node :: "statement \<Rightarrow> bool" where
  "is_node (Node n a) = True"
| "is_node s = False"

fun is_edge :: "statement \<Rightarrow> bool" where
  "is_edge (Edge t h a) = True"
| "is_edge s = False"

definition nodes :: "digraph \<Rightarrow> statement list" where
  "nodes graph = filter is_node (body graph)"

definition edges :: "digraph \<Rightarrow> statement list" where
  "edges graph = filter is_edge (body graph)"


text \<open>
  The statements a walk of \<open>e\<close> appends: the node, the edge from the parent if there is
  one, then the statements of the children in order.
\<close>

fun emitted :: "element \<Rightarrow> string option \<Rightarrow> statement list"
  and emitted_list :: "element list \<Rightarrow> string \<Rightarrow> statement list" where
  "emitted (Element dev attrs elems) parent_node =
     node_statement (Element dev attrs elems)
       # (case parent_node of
            None \<Rightarrow> []
          | Some p \<Rightarrow> [edge_statement p (node_name (Element dev attrs elems))])
       @ emitted_list elems (node_name (Element dev attrs elems))"
| "emitted_list [] name = []"
| "emitted_list (e # es) name = emitted e (Some name) @ emitted_list es name"

text \<open>The edge statement of a parent-child pair.\<close>

definition pair_edge :: "element \<times> element \<Rightarrow> statement" where
  "pair_edge pc = edge_statement (node_name (fst pc)) (node_name (snd pc))"

text \<open>The name a node statement declares (for an edge, its head).\<close>

fun name_of :: "statement \<Rightarrow> string" where
  "name_of (Node n a) = n"
| "name_of (Edge t h a) = h"
| "name_of (Attr kw a) = []"


text \<open>
  The launch environment of a process as the launcher sets it: the three variables
  hold integers.
\<close>

definition torchrun_environ :: "int \<Rightarrow> int \<Rightarrow> int \<Rightarrow> string \<Rightarrow> env_entry" where
  "torchrun_environ rank local_rank world_size name =
     (if name = ''RANK'' then Num rank
      else if name = ''LOCAL_RANK'' then Num local_rank
      else if name = ''WORLD_SIZE'' then Num world_size
      else Unset)"


section \<open>The renderer's tree walk\<close>

lemma body_add_statement: "body (add_statement s graph) = body graph @ [s]"
  by (simp add: add_statement_def)

lemma build_emitted:
  "build_topology graph e parent_node rank = graph\<lparr>body := body graph @ emitted e parent_node\<rparr>"
  "build_children graph es name rank = graph\<lparr>body := body graph @ emitted_list es name\<rparr>"
proof (induction graph e parent_node rank and graph es name rank
    rule: build_topology_build_children.induct)
  case (1 graph dev attrs elems parent_node rank)
  then show ?case
    by (cases parent_node) (simp_all add: Let_def add_statement_def)
next
  case (2 graph name rank)
  then show ?case by simp
next
  case (3 graph child_element elems name rank)
  then show ?case by simp
qed

lemma is_node_statement: "is_node (node_statement e)" "\<not> is_edge (node_statement e)"
  by (simp_all add: node_statement_def)

lemma is_edge_statement: "is_edge (edge_statement p n)" "\<not> is_node (edge_statement p n)"
  by (simp_all add: edge_statement_def)

lemma nodes_emitted:
  "filter is_node (emitted e parent_node) = map node_statement (elements e)"
  "filter is_node (emitted_list es name) = map node_statement (elements_list es)"
proof (induction e parent_node and es name rule: emitted_emitted_list.induct)
  case (1 dev attrs elems parent_node)
  then show ?case
    by (cases parent_node) (simp_all add: is_node_statement is_edge_statement)
qed simp_all

lemma edges_emitted:
  "filter is_edge (emitted e parent_node) =
     (case parent_node of None \<Rightarrow> [] | Some p \<Rightarrow> [edge_statement p (node_name e)])
       @ map pair_edge (child_pairs e)"
  "filter is_edge (emitted_list es (node_name q)) = map pair_edge (child_pairs_list q es)"
proof (induction e and q es arbitrary: parent_node rule: child_pairs_child_pairs_list.induct)
  case (1 dev attrs elems)
  then show ?case
    by (cases parent_node) (simp_all add: is_node_statement is_edge_statement)
next
  case (2 p)
  then show ?case by simp
next
  case (3 p e es)
  then show ?case by (simp add: pair_edge_def)
qed

lemma length_child_pairs:
  "Suc (length (child_pairs e)) = length (elements e)"
  "length (child_pairs_list p es) = length (elements_list es)"
  by (induction e and p es rule: child_pairs_child_pairs_list.induct) simp_all

lemma nodes_initial_graph: "nodes initial_graph = []" "edges initial_graph = []"
  by (simp_all add: nodes_def edges_def initial_graph_def)

lemma nodes_build:
  "nodes (build_topology graph root None rank) = nodes graph @ map node_statement (elements root)"
  by (simp add: nodes_def build_emitted nodes_emitted)

lemma edges_build:
  "edges (build_topology graph root None rank) = edges graph @ map pair_edge (child_pairs root)"
  by (simp add: edges_def build_emitted edges_emitted)

text \<open>
  C1. The walk of a document with \<open>N\<close> elements, started as \<open>main\<close> starts it (on the
  configured graph, without a parent), creates exactly \<open>N\<close> nodes and \<open>N - 1\<close> edges: the
  node statements are those of the elements in document order, one each, and the edge
  statements are those of the parent-child pairs, one each, of which there are \<open>N - 1\<close>.
  The root has no pair in which it is the child, hence no incoming edge.
\<close>

theorem tree_walk_creations:
  "nodes (build_topology initial_graph root None rank) = map node_statement (elements root) \<and>
   edges (build_topology initial_graph root None rank) = map pair_edge (child_pairs root) \<and>
   length (nodes (build_topology initial_graph root None rank)) = length (elements root) \<and>
   length (edges (build_topology initial_graph root None rank)) = length (elements root) - 1 \<and>
   length (child_pairs root) = length (elements root) - 1"
proof -
  have "length (child_pairs root) = length (elements root) - 1"
    using length_child_pairs(1) [of root] by simp
  then show ?thesis
    by (simp add: nodes_build edges_build nodes_initial_graph)
qed

lemma format_rows_eq:
  "format_rows rows items =
     rows @ map (\<lambda>(k, v). attr_row k (if 30 < length v then take 27 v @ ''...'' else v)) items"
  by (induction rows items rule: format_rows.induct) (simp_all add: Let_def)

lemma format_attributes_rows:
  \<open>format_attributes attrs =
     concat (map (\<lambda>(k, v).
        ''<TR><TD ALIGN="LEFT"><FONT POINT-SIZE="10">'' @ k @ ''</FONT></TD>'' @
        ''<TD ALIGN="LEFT"><FONT POINT-SIZE="10">'' @
        (if 30 < length v then take 27 v @ ''...'' else v) @ ''</FONT></TD></TR>'') attrs)\<close>
  by (simp add: format_attributes_def format_rows_eq attr_row_def)

lemma format_attributes_not_Nil: "attrs \<noteq> [] \<Longrightarrow> format_attributes attrs \<noteq> []"
  by (cases attrs) (auto simp add: format_attributes_def format_rows_eq attr_row_def)

lemma label_table:
  \<open>attrib e \<noteq> [] \<Longrightarrow>
     label e =
       ''<<TABLE BORDER="0" CELLBORDER="1" CELLSPACING="0" CELLPADDING="4">\<newline>'' @
       ''            <TR><TD BGCOLOR="'' @ color_of (tag e) @ ''"><B>'' @ title e @
       ''</B></TD></TR>\<newline>'' @
       ''            '' @ format_attributes (attrib e) @ ''\<newline>'' @
       ''            </TABLE>>''\<close>
  using format_attributes_not_Nil [of "attrib e"] by (simp add: label_def Let_def)

text \<open>
  C2. The rows of the label table are one per attribute, in order; a row holds the key
  in its first cell and, in its second, the first 27 characters of the attribute's value
  followed by \<open>...\<close> when the value is longer than 30 characters, and the value itself
  otherwise. The label of an element that has attributes is the table made of the title
  row and these rows.
\<close>

theorem format_attributes_truncation:
  \<open>format_attributes attrs =
     concat (map (\<lambda>(k, v).
        ''<TR><TD ALIGN="LEFT"><FONT POINT-SIZE="10">'' @ k @ ''</FONT></TD>'' @
        ''<TD ALIGN="LEFT"><FONT POINT-SIZE="10">'' @
        (if 30 < length v then take 27 v @ ''...'' else v) @ ''</FONT></TD></TR>'') attrs) \<and>
   (attrib e \<noteq> [] \<longrightarrow>
      label e =
        ''<<TABLE BORDER="0" CELLBORDER="1" CELLSPACING="0" CELLPADDING="4">\<newline>'' @
        ''            <TR><TD BGCOLOR="'' @ color_of (tag e) @ ''"><B>'' @ title e @
        ''</B></TD></TR>\<newline>'' @
        ''            '' @ format_attributes (attrib e) @ ''\<newline>'' @
        ''            </TABLE>>'')\<close>
proof (intro conjI impI)
  show \<open>format_attributes attrs =
     concat (map (\<lambda>(k, v).
        ''<TR><TD ALIGN="LEFT"><FONT POINT-SIZE="10">'' @ k @ ''</FONT></TD>'' @
        ''<TD ALIGN="LEFT"><FONT POINT-SIZE="10">'' @
        (if 30 < length v then take 27 v @ ''...'' else v) @ ''</FONT></TD></TR>'') attrs)\<close>
    by (rule format_attributes_rows)
next
  assume "attrib e \<noteq> []"
  then show \<open>label e =
        ''<<TABLE BORDER="0" CELLBORDER="1" CELLSPACING="0" CELLPADDING="4">\<newline>'' @
        ''            <TR><TD BGCOLOR="'' @ color_of (tag e) @ ''"><B>'' @ title e @
        ''</B></TD></TR>\<newline>'' @
        ''            '' @ format_attributes (attrib e) @ ''\<newline>'' @
        ''            </TABLE>>''\<close>
    by (rule label_table)
qed

text \<open>
  A value of 30 characters is shown as it is and one of 31 characters is cut; the label
  of a net element with a value of 34 characters shows its first 27 characters and the
  dots.
\<close>

theorem format_attributes_truncation_witness:
  \<open>format_attributes
       [(''a'', ''123456789012345678901234567890''),
        (''b'', ''1234567890123456789012345678901'')] =
     ''<TR><TD ALIGN="LEFT"><FONT POINT-SIZE="10">a</FONT></TD>'' @
     ''<TD ALIGN="LEFT"><FONT POINT-SIZE="10">123456789012345678901234567890</FONT></TD></TR>'' @
     ''<TR><TD ALIGN="LEFT"><FONT POINT-SIZE="10">b</FONT></TD>'' @
     ''<TD ALIGN="LEFT"><FONT POINT-SIZE="10">123456789012345678901234567...</FONT></TD></TR>'' \<and>
   label (Element ''net'' [(''guid'', ''0x0123456789abcdef0123456789abcdef'')] []) =
     ''<<TABLE BORDER="0" CELLBORDER="1" CELLSPACING="0" CELLPADDING="4">\<newline>'' @
     ''            <TR><TD BGCOLOR="#FFE0B2"><B>Net</B></TD></TR>\<newline>'' @
     ''            <TR><TD ALIGN="LEFT"><FONT POINT-SIZE="10">guid</FONT></TD>'' @
     ''<TD ALIGN="LEFT"><FONT POINT-SIZE="10">0x0123456789abcdef012345678...</FONT></TD></TR>'' @
     ''\<newline>            </TABLE>>''\<close>
proof -
  have \<open>format_attributes
       [(''a'', ''123456789012345678901234567890''),
        (''b'', ''1234567890123456789012345678901'')] =
     concat (map (\<lambda>(k, v).
        ''<TR><TD ALIGN="LEFT"><FONT POINT-SIZE="10">'' @ k @ ''</FONT></TD>'' @
        ''<TD ALIGN="LEFT"><FONT POINT-SIZE="10">'' @
        (if 30 < length v then take 27 v @ ''...'' else v) @ ''</FONT></TD></TR>'')
       [(''a'', ''123456789012345678901234567890''),
        (''b'', ''1234567890123456789012345678901'')])\<close>
    by (rule format_attributes_truncation [THEN conjunct1])
  then have a: \<open>format_attributes
       [(''a'', ''123456789012345678901234567890''),
        (''b'', ''1234567890123456789012345678901'')] =
     ''<TR><TD ALIGN="LEFT"><FONT POINT-SIZE="10">a</FONT></TD>'' @
     ''<TD ALIGN="LEFT"><FONT POINT-SIZE="10">123456789012345678901234567890</FONT></TD></TR>'' @
     ''<TR><TD ALIGN="LEFT"><FONT POINT-SIZE="10">b</FONT></TD>'' @
     ''<TD ALIGN="LEFT"><FONT POINT-SIZE="10">123456789012345678901234567...</FONT></TD></TR>''\<close>
    by simp
  have h: "attrib (Element ''net'' [(''guid'', ''0x0123456789abcdef0123456789abcdef'')] []) \<noteq> []"
    by simp
  have \<open>format_attributes [(''guid'', ''0x0123456789abcdef0123456789abcdef'')] =
     concat (map (\<lambda>(k, v).
        ''<TR><TD ALIGN="LEFT"><FONT POINT-SIZE="10">'' @ k @ ''</FONT></TD>'' @
        ''<TD ALIGN="LEFT"><FONT POINT-SIZE="10">'' @
        (if 30 < length v then take 27 v @ ''...'' else v) @ ''</FONT></TD></TR>'')
       [(''guid'', ''0x0123456789abcdef0123456789abcdef'')])\<close>
    by (rule format_attributes_truncation [THEN conjunct1])
  then have f: \<open>format_attributes [(''guid'', ''0x0123456789abcdef0123456789abcdef'')] =
     ''<TR><TD ALIGN="LEFT"><FONT POINT-SIZE="10">guid</FONT></TD>'' @
     ''<TD ALIGN="LEFT"><FONT POINT-SIZE="10">0x0123456789abcdef012345678...</FONT></TD></TR>''\<close>
    by simp
  have t: "title (Element ''net'' [(''guid'', ''0x0123456789abcdef0123456789abcdef'')] []) = ''Net''"
    by (simp add: title_def res_of_def attr_map_def capitalize_def to_upper_def to_lower_def
        lower_letters_def upper_letters_def)
  have c: "color_of ''net'' = ''#FFE0B2''"
    by (simp add: color_of_def colors_def)
  have b: \<open>label (Element ''net'' [(''guid'', ''0x0123456789abcdef0123456789abcdef'')] []) =
     ''<<TABLE BORDER="0" CELLBORDER="1" CELLSPACING="0" CELLPADDING="4">\<newline>'' @
     ''            <TR><TD BGCOLOR="#FFE0B2"><B>Net</B></TD></TR>\<newline>'' @
     ''            <TR><TD ALIGN="LEFT"><FONT POINT-SIZE="10">guid</FONT></TD>'' @
     ''<TD ALIGN="LEFT"><FONT POINT-SIZE="10">0x0123456789abcdef012345678...</FONT></TD></TR>'' @
     ''\<newline>            </TABLE>>''\<close>
    using format_attributes_truncation
      [where e = "Element ''net'' [(''guid'', ''0x0123456789abcdef0123456789abcdef'')] []",
       THEN conjunct2, rule_format, OF h]
    by (simp add: f t c)
  from a b show ?thesis by (intro conjI)
qed

text \<open>
  C10. The graph after the walk is the same for any two values of the \<open>rank\<close> argument:
  the argument is passed down the recursion and never read.
\<close>

theorem build_topology_rank_independent:
  "build_topology graph e parent_node rank = build_topology graph e parent_node rank'"
  by (simp add: build_emitted)


section \<open>Node names and titles\<close>

lemma replace_Nil: "replace old new [] = []"
  by (simp add: replace_def)

lemma replace_eq_Nil: "replace old new s = [] \<longleftrightarrow> s = []"
  by (simp add: replace_def)

lemma res_of_table:
  "(dev, key) \<in> {(''cpu'', ''numaid''), (''pci'', ''busid''), (''gpu'', ''dev''),
      (''nvlink'', ''target''), (''net'', ''name''), (''nic'', ''name''), (''graph'', ''id'')}
   \<Longrightarrow> res_of (Element dev attrs elems) =
         (case map_of attrs key of
            None \<Rightarrow> None
          | Some v \<Rightarrow> Some (replace (CHR '':'') (CHR ''_'') v))"
  by (elim insertE emptyE) (simp_all add: res_of_def attr_map_def replace_Nil split: option.splits)

lemma res_of_no_entry:
  "dev \<notin> {''cpu'', ''pci'', ''gpu'', ''nvlink'', ''net'', ''nic'', ''graph''}
   \<Longrightarrow> res_of (Element dev attrs elems) = None"
  by (simp add: res_of_def attr_map_def)

lemma node_name_res:
  "node_name e =
     (case res_of e of None \<Rightarrow> tag e | Some r \<Rightarrow> if r = [] then tag e else tag e @ ''_'' @ r)"
  by (cases "res_of e") (simp_all add: node_name_def)

text \<open>
  C5, as amended. With the table cpu \<open>\<rightarrow>\<close> numaid, pci \<open>\<rightarrow>\<close> busid, gpu \<open>\<rightarrow>\<close> dev,
  nvlink \<open>\<rightarrow>\<close> target, net and nic \<open>\<rightarrow>\<close> name, graph \<open>\<rightarrow>\<close> id: the node name of an
  element is its type, an underscore and the identifying attribute's value with every
  colon replaced by an underscore, when that attribute is present and its value is not
  empty; it is the type alone when the attribute is absent or its value is empty, and
  when the type has no entry in the table.
\<close>

theorem node_name_scheme:
  "((dev, key) \<in> {(''cpu'', ''numaid''), (''pci'', ''busid''), (''gpu'', ''dev''),
        (''nvlink'', ''target''), (''net'', ''name''), (''nic'', ''name''), (''graph'', ''id'')}
      \<and> map_of attrs key = Some v \<and> v \<noteq> []
    \<longrightarrow> node_name (Element dev attrs elems) = dev @ ''_'' @ replace (CHR '':'') (CHR ''_'') v) \<and>
   ((dev, key) \<in> {(''cpu'', ''numaid''), (''pci'', ''busid''), (''gpu'', ''dev''),
        (''nvlink'', ''target''), (''net'', ''name''), (''nic'', ''name''), (''graph'', ''id'')}
      \<and> (map_of attrs key = None \<or> map_of attrs key = Some [])
    \<longrightarrow> node_name (Element dev attrs elems) = dev) \<and>
   (dev \<notin> {''cpu'', ''pci'', ''gpu'', ''nvlink'', ''net'', ''nic'', ''graph''}
    \<longrightarrow> node_name (Element dev attrs elems) = dev)"
proof (intro conjI impI; (elim conjE)?)
  assume "(dev, key) \<in> {(''cpu'', ''numaid''), (''pci'', ''busid''), (''gpu'', ''dev''),
        (''nvlink'', ''target''), (''net'', ''name''), (''nic'', ''name''), (''graph'', ''id'')}"
    and v: "map_of attrs key = Some v" "v \<noteq> []"
  then have "res_of (Element dev attrs elems) = Some (replace (CHR '':'') (CHR ''_'') v)"
    by (simp only: res_of_table option.case)
  moreover from v have "replace (CHR '':'') (CHR ''_'') v \<noteq> []"
    by (simp only: replace_eq_Nil not_False_eq_True)
  ultimately show "node_name (Element dev attrs elems) = dev @ ''_'' @ replace (CHR '':'') (CHR ''_'') v"
    by (simp only: node_name_res option.case if_False element.sel)
next
  assume "(dev, key) \<in> {(''cpu'', ''numaid''), (''pci'', ''busid''), (''gpu'', ''dev''),
        (''nvlink'', ''target''), (''net'', ''name''), (''nic'', ''name''), (''graph'', ''id'')}"
  then have t: "res_of (Element dev attrs elems) =
         (case map_of attrs key of
            None \<Rightarrow> None
          | Some v \<Rightarrow> Some (replace (CHR '':'') (CHR ''_'') v))"
    by (rule res_of_table)
  assume "map_of attrs key = None \<or> map_of attrs key = Some []"
  then show "node_name (Element dev attrs elems) = dev"
  proof
    assume "map_of attrs key = None"
    with t show ?thesis by (simp only: node_name_res option.case element.sel)
  next
    assume "map_of attrs key = Some []"
    with t show ?thesis by (simp only: node_name_res option.case element.sel replace_Nil if_True refl)
  qed
next
  assume "dev \<notin> {''cpu'', ''pci'', ''gpu'', ''nvlink'', ''net'', ''nic'', ''graph''}"
  then have "res_of (Element dev attrs elems) = None"
    by (rule res_of_no_entry)
  then show "node_name (Element dev attrs elems) = dev"
    by (simp only: node_name_res option.case element.sel)
qed

text \<open>
  The three cases at concrete elements; the first is the example of the specification,
  a pci element with busid \<open>0000:00:1f.0\<close>.
\<close>

theorem node_name_scheme_witness:
  "node_name (Element ''pci'' [(''busid'', ''0000:00:1f.0'')] []) = ''pci_0000_00_1f.0'' \<and>
   node_name (Element ''gpu'' [(''sm'', ''90'')] []) = ''gpu'' \<and>
   node_name (Element ''channel'' [(''id'', ''3'')] []) = ''channel''"
proof -
  have h1: "(''pci'', ''busid'') \<in> {(''cpu'', ''numaid''), (''pci'', ''busid''), (''gpu'', ''dev''),
        (''nvlink'', ''target''), (''net'', ''name''), (''nic'', ''name''), (''graph'', ''id'')}
      \<and> map_of [(''busid'', ''0000:00:1f.0'')] ''busid'' = Some ''0000:00:1f.0''
      \<and> ''0000:00:1f.0'' \<noteq> []"
    by simp
  have h2: "(''gpu'', ''dev'') \<in> {(''cpu'', ''numaid''), (''pci'', ''busid''), (''gpu'', ''dev''),
        (''nvlink'', ''target''), (''net'', ''name''), (''nic'', ''name''), (''graph'', ''id'')}
      \<and> (map_of [(''sm'', ''90'')] ''dev'' = None \<or> map_of [(''sm'', ''90'')] ''dev'' = Some [])"
    by simp
  have h3: "''channel'' \<notin> {''cpu'', ''pci'', ''gpu'', ''nvlink'', ''net'', ''nic'', ''graph''}"
    by simp
  have r: "''pci'' @ ''_'' @ replace (CHR '':'') (CHR ''_'') ''0000:00:1f.0'' = ''pci_0000_00_1f.0''"
    by (simp add: replace_def)
  have a: "node_name (Element ''pci'' [(''busid'', ''0000:00:1f.0'')] []) = ''pci_0000_00_1f.0''"
    using node_name_scheme
      [of "''pci''" "''busid''" "[(''busid'', ''0000:00:1f.0'')]" "''0000:00:1f.0''" "[]",
       THEN conjunct1, rule_format, OF h1]
    by (simp only: r)
  have b: "node_name (Element ''gpu'' [(''sm'', ''90'')] []) = ''gpu''"
    by (rule node_name_scheme
      [of "''gpu''" "''dev''" "[(''sm'', ''90'')]" "''''" "[]",
       THEN conjunct2, THEN conjunct1, rule_format, OF h2])
  have c: "node_name (Element ''channel'' [(''id'', ''3'')] []) = ''channel''"
    by (rule node_name_scheme
      [of "''channel''" "''''" "[(''id'', ''3'')]" "''''" "[]",
       THEN conjunct2, THEN conjunct2, rule_format, OF h3])
  from a b c show ?thesis by (intro conjI)
qed

lemma res_of_gpu_empty: "res_of (Element ''gpu'' [(''dev'', '''')] []) = Some ''''"
  by (simp add: res_of_def attr_map_def)

text \<open>
  C5 as stated fails where the identifying attribute is present with an empty value:
  the element \<open><gpu dev=""/>\<close> has the attribute, and its node name is \<open>gpu\<close>, not
  \<open>gpu_\<close>. The tests \<open>if res\<close> of \<open>build_topology\<close> treat an empty value as no value.
\<close>

theorem node_name_empty_value_counterexample:
  "map_of (attrib (Element ''gpu'' [(''dev'', '''')] [])) ''dev'' = Some '''' \<and>
   node_name (Element ''gpu'' [(''dev'', '''')] []) = ''gpu'' \<and>
   node_name (Element ''gpu'' [(''dev'', '''')] []) \<noteq>
     ''gpu'' @ ''_'' @ replace (CHR '':'') (CHR ''_'') ''''"
  by (simp add: node_name_def res_of_gpu_empty replace_def)


lemma upper_gpu_cpu: "upper ''gpu'' = ''GPU''" "upper ''cpu'' = ''CPU''"
  by (simp_all add: upper_def to_upper_def lower_letters_def upper_letters_def)

lemma title_res:
  "title e =
     (if tag e = ''gpu'' \<or> tag e = ''cpu'' then upper (tag e) else capitalize (tag e))
       @ (case res_of e of None \<Rightarrow> [] | Some r \<Rightarrow> if r = [] then [] else '' '' @ r)"
  by (cases "res_of e") (simp_all add: title_def Let_def)

lemma case_letters:
  "map to_upper ''abcdefghijklmnopqrstuvwxyz'' = ''ABCDEFGHIJKLMNOPQRSTUVWXYZ''"
  "map to_lower ''ABCDEFGHIJKLMNOPQRSTUVWXYZ'' = ''abcdefghijklmnopqrstuvwxyz''"
  by (simp_all add: to_upper_def to_lower_def lower_letters_def upper_letters_def)

lemma to_upper_other: "c \<notin> set ''abcdefghijklmnopqrstuvwxyz'' \<Longrightarrow> to_upper c = c"
  by (simp add: to_upper_def lower_letters_def upper_letters_def)

lemma to_lower_other: "c \<notin> set ''ABCDEFGHIJKLMNOPQRSTUVWXYZ'' \<Longrightarrow> to_lower c = c"
  by (simp add: to_lower_def lower_letters_def upper_letters_def)

lemma title_table:
  "(dev, key, base) \<in>
      {(''cpu'', ''numaid'', ''CPU''), (''pci'', ''busid'', ''Pci''), (''gpu'', ''dev'', ''GPU''),
       (''nvlink'', ''target'', ''Nvlink''), (''net'', ''name'', ''Net''),
       (''nic'', ''name'', ''Nic''), (''graph'', ''id'', ''Graph'')}
   \<Longrightarrow> title (Element dev attrs elems) =
         base @ (case map_of attrs key of
                   None \<Rightarrow> []
                 | Some v \<Rightarrow>
                     if v = [] then []
                     else '' '' @ map (\<lambda>c. if c = CHR '':'' then CHR ''_'' else c) v)"
  by (elim insertE emptyE)
     (simp_all add: title_res res_of_def attr_map_def replace_def upper_def capitalize_def
        to_upper_def to_lower_def lower_letters_def upper_letters_def split: option.splits)

lemma title_no_entry:
  "dev \<notin> {''cpu'', ''pci'', ''gpu'', ''nvlink'', ''net'', ''nic'', ''graph''}
   \<Longrightarrow> title (Element dev attrs elems) =
         (case dev of [] \<Rightarrow> [] | c # cs \<Rightarrow> to_upper c # map to_lower cs)"
  by (simp add: title_res res_of_def attr_map_def capitalize_def)

text \<open>
  C6, as amended. The title of an element starts with its type, in upper case for gpu
  and cpu (\<open>GPU\<close>, \<open>CPU\<close>) and capitalized for every other type: \<open>Pci\<close>, \<open>Nvlink\<close>,
  \<open>Net\<close>, \<open>Nic\<close> and \<open>Graph\<close> for the other types of the table, and for a type
  without an entry its first character in upper case followed by the others in lower
  case. A space and the identifier (the identifying attribute's value with every colon
  replaced by an underscore) follow when the identifier is present and not empty, and
  nothing follows when it is absent or empty; a type without an entry has no identifier.
  The case conversions are those of the ASCII letters, stated with the theorem: the
  letters map to one another in alphabetical order, and every other ASCII character is
  left as it is. For a type outside the table the statement is about types written in
  ASCII.
\<close>

theorem title_scheme:
  "map to_upper ''abcdefghijklmnopqrstuvwxyz'' = ''ABCDEFGHIJKLMNOPQRSTUVWXYZ'' \<and>
   map to_lower ''ABCDEFGHIJKLMNOPQRSTUVWXYZ'' = ''abcdefghijklmnopqrstuvwxyz'' \<and>
   (\<not> digit7 c \<and> c \<notin> set ''abcdefghijklmnopqrstuvwxyz'' \<longrightarrow> to_upper c = c) \<and>
   (\<not> digit7 c \<and> c \<notin> set ''ABCDEFGHIJKLMNOPQRSTUVWXYZ'' \<longrightarrow> to_lower c = c) \<and>
   ((dev, key, base) \<in>
        {(''cpu'', ''numaid'', ''CPU''), (''pci'', ''busid'', ''Pci''), (''gpu'', ''dev'', ''GPU''),
         (''nvlink'', ''target'', ''Nvlink''), (''net'', ''name'', ''Net''),
         (''nic'', ''name'', ''Nic''), (''graph'', ''id'', ''Graph'')}
      \<and> map_of attrs key = Some v \<and> v \<noteq> []
    \<longrightarrow> title (Element dev attrs elems) =
          base @ '' '' @ map (\<lambda>x. if x = CHR '':'' then CHR ''_'' else x) v) \<and>
   ((dev, key, base) \<in>
        {(''cpu'', ''numaid'', ''CPU''), (''pci'', ''busid'', ''Pci''), (''gpu'', ''dev'', ''GPU''),
         (''nvlink'', ''target'', ''Nvlink''), (''net'', ''name'', ''Net''),
         (''nic'', ''name'', ''Nic''), (''graph'', ''id'', ''Graph'')}
      \<and> (map_of attrs key = None \<or> map_of attrs key = Some [])
    \<longrightarrow> title (Element dev attrs elems) = base) \<and>
   (dev \<notin> {''cpu'', ''pci'', ''gpu'', ''nvlink'', ''net'', ''nic'', ''graph''} \<and> is_ascii dev
    \<longrightarrow> title (Element dev attrs elems) =
          (case dev of [] \<Rightarrow> [] | x # xs \<Rightarrow> to_upper x # map to_lower xs))"
proof (intro conjI impI; (elim conjE)?)
  show "map to_upper ''abcdefghijklmnopqrstuvwxyz'' = ''ABCDEFGHIJKLMNOPQRSTUVWXYZ''"
    by (rule case_letters)
  show "map to_lower ''ABCDEFGHIJKLMNOPQRSTUVWXYZ'' = ''abcdefghijklmnopqrstuvwxyz''"
    by (rule case_letters)
next
  assume "c \<notin> set ''abcdefghijklmnopqrstuvwxyz''"
  then show "to_upper c = c" by (rule to_upper_other)
next
  assume "c \<notin> set ''ABCDEFGHIJKLMNOPQRSTUVWXYZ''"
  then show "to_lower c = c" by (rule to_lower_other)
next
  assume "(dev, key, base) \<in>
        {(''cpu'', ''numaid'', ''CPU''), (''pci'', ''busid'', ''Pci''), (''gpu'', ''dev'', ''GPU''),
         (''nvlink'', ''target'', ''Nvlink''), (''net'', ''name'', ''Net''),
         (''nic'', ''name'', ''Nic''), (''graph'', ''id'', ''Graph'')}"
  then have t: "title (Element dev attrs elems) =
         base @ (case map_of attrs key of
                   None \<Rightarrow> []
                 | Some v \<Rightarrow>
                     if v = [] then []
                     else '' '' @ map (\<lambda>c. if c = CHR '':'' then CHR ''_'' else c) v)"
    by (rule title_table)
  assume "map_of attrs key = Some v" "v \<noteq> []"
  with t show "title (Element dev attrs elems) =
          base @ '' '' @ map (\<lambda>x. if x = CHR '':'' then CHR ''_'' else x) v"
    by (simp only: option.case if_False)
next
  assume "(dev, key, base) \<in>
        {(''cpu'', ''numaid'', ''CPU''), (''pci'', ''busid'', ''Pci''), (''gpu'', ''dev'', ''GPU''),
         (''nvlink'', ''target'', ''Nvlink''), (''net'', ''name'', ''Net''),
         (''nic'', ''name'', ''Nic''), (''graph'', ''id'', ''Graph'')}"
  then have t: "title (Element dev attrs elems) =
         base @ (case map_of attrs key of
                   None \<Rightarrow> []
                 | Some v \<Rightarrow>
                     if v = [] then []
                     else '' '' @ map (\<lambda>c. if c = CHR '':'' then CHR ''_'' else c) v)"
    by (rule title_table)
  assume "map_of attrs key = None \<or> map_of attrs key = Some []"
  then show "title (Element dev attrs elems) = base"
  proof
    assume "map_of attrs key = None"
    with t show ?thesis by (simp only: option.case append_Nil2)
  next
    assume "map_of attrs key = Some []"
    with t show ?thesis by (simp only: option.case if_True refl append_Nil2)
  qed
next
  assume "dev \<notin> {''cpu'', ''pci'', ''gpu'', ''nvlink'', ''net'', ''nic'', ''graph''}"
  then show "title (Element dev attrs elems) =
          (case dev of [] \<Rightarrow> [] | x # xs \<Rightarrow> to_upper x # map to_lower xs)"
    by (rule title_no_entry)
qed

lemma case_letters_examples:
  "to_upper (CHR ''N'') # map to_lower ''VSwitch'' = ''Nvswitch''"
  "to_upper (CHR ''c'') # map to_lower ''hannel'' = ''Channel''"
  by (simp_all add: to_upper_def to_lower_def lower_letters_def upper_letters_def)

lemma replace_examples:
  "map (\<lambda>x. if x = CHR '':'' then CHR ''_'' else x) ''0'' = ''0''"
  "map (\<lambda>x. if x = CHR '':'' then CHR ''_'' else x) ''0000:00:1f.0'' = ''0000_00_1f.0''"
  by simp_all

text \<open>
  The cases at concrete elements. The first title is the example of the specification,
  a gpu element with identifier \<open>0\<close> and title \<open>GPU 0\<close>; the last is a type written in
  mixed case, whose capitalized form has the first letter in upper case and the others in
  lower case.
\<close>

theorem title_scheme_witness:
  "to_upper (CHR ''1'') = CHR ''1'' \<and>
   to_lower (CHR ''_'') = CHR ''_'' \<and>
   title (Element ''gpu'' [(''dev'', ''0'')] []) = ''GPU 0'' \<and>
   title (Element ''pci'' [(''busid'', ''0000:00:1f.0'')] []) = ''Pci 0000_00_1f.0'' \<and>
   title (Element ''cpu'' [(''arch'', ''x86_64'')] []) = ''CPU'' \<and>
   title (Element ''channel'' [(''id'', ''3'')] []) = ''Channel'' \<and>
   title (Element ''NVSwitch'' [] []) = ''Nvswitch''"
proof -
  have h1: "\<not> digit7 (CHR ''1'') \<and> CHR ''1'' \<notin> set ''abcdefghijklmnopqrstuvwxyz''"
    by simp
  have h2: "\<not> digit7 (CHR ''_'') \<and> CHR ''_'' \<notin> set ''ABCDEFGHIJKLMNOPQRSTUVWXYZ''"
    by simp
  have h3: "(''gpu'', ''dev'', ''GPU'') \<in>
        {(''cpu'', ''numaid'', ''CPU''), (''pci'', ''busid'', ''Pci''), (''gpu'', ''dev'', ''GPU''),
         (''nvlink'', ''target'', ''Nvlink''), (''net'', ''name'', ''Net''),
         (''nic'', ''name'', ''Nic''), (''graph'', ''id'', ''Graph'')}
      \<and> map_of [(''dev'', ''0'')] ''dev'' = Some ''0'' \<and> ''0'' \<noteq> []"
    by simp
  have h4: "(''pci'', ''busid'', ''Pci'') \<in>
        {(''cpu'', ''numaid'', ''CPU''), (''pci'', ''busid'', ''Pci''), (''gpu'', ''dev'', ''GPU''),
         (''nvlink'', ''target'', ''Nvlink''), (''net'', ''name'', ''Net''),
         (''nic'', ''name'', ''Nic''), (''graph'', ''id'', ''Graph'')}
      \<and> map_of [(''busid'', ''0000:00:1f.0'')] ''busid'' = Some ''0000:00:1f.0''
      \<and> ''0000:00:1f.0'' \<noteq> []"
    by simp
  have h5: "(''cpu'', ''numaid'', ''CPU'') \<in>
        {(''cpu'', ''numaid'', ''CPU''), (''pci'', ''busid'', ''Pci''), (''gpu'', ''dev'', ''GPU''),
         (''nvlink'', ''target'', ''Nvlink''), (''net'', ''name'', ''Net''),
         (''nic'', ''name'', ''Nic''), (''graph'', ''id'', ''Graph'')}
      \<and> (map_of [(''arch'', ''x86_64'')] ''numaid'' = None
           \<or> map_of [(''arch'', ''x86_64'')] ''numaid'' = Some [])"
    by simp
  have h6: "''channel'' \<notin> {''cpu'', ''pci'', ''gpu'', ''nvlink'', ''net'', ''nic'', ''graph''}
      \<and> is_ascii ''channel''"
    by (simp add: is_ascii_def)
  have h7: "''NVSwitch'' \<notin> {''cpu'', ''pci'', ''gpu'', ''nvlink'', ''net'', ''nic'', ''graph''}
      \<and> is_ascii ''NVSwitch''"
    by (simp add: is_ascii_def)
  have a: "to_upper (CHR ''1'') = CHR ''1''"
    by (rule title_scheme
      [where c = "CHR ''1''",
       THEN conjunct2, THEN conjunct2, THEN conjunct1, rule_format, OF h1])
  have b: "to_lower (CHR ''_'') = CHR ''_''"
    by (rule title_scheme
      [where c = "CHR ''_''",
       THEN conjunct2, THEN conjunct2, THEN conjunct2, THEN conjunct1, rule_format, OF h2])
  have "title (Element ''gpu'' [(''dev'', ''0'')] []) =
      ''GPU'' @ '' '' @ map (\<lambda>x. if x = CHR '':'' then CHR ''_'' else x) ''0''"
    by (rule title_scheme
      [where dev = "''gpu''" and key = "''dev''" and base = "''GPU''"
         and attrs = "[(''dev'', ''0'')]" and v = "''0''" and elems = "[]",
       THEN conjunct2, THEN conjunct2, THEN conjunct2, THEN conjunct2, THEN conjunct1,
       rule_format, OF h3])
  then have c: "title (Element ''gpu'' [(''dev'', ''0'')] []) = ''GPU 0''"
    by (simp only: replace_examples append.simps)
  have "title (Element ''pci'' [(''busid'', ''0000:00:1f.0'')] []) =
      ''Pci'' @ '' '' @ map (\<lambda>x. if x = CHR '':'' then CHR ''_'' else x) ''0000:00:1f.0''"
    by (rule title_scheme
      [where dev = "''pci''" and key = "''busid''" and base = "''Pci''"
         and attrs = "[(''busid'', ''0000:00:1f.0'')]" and v = "''0000:00:1f.0''" and elems = "[]",
       THEN conjunct2, THEN conjunct2, THEN conjunct2, THEN conjunct2, THEN conjunct1,
       rule_format, OF h4])
  then have d: "title (Element ''pci'' [(''busid'', ''0000:00:1f.0'')] []) = ''Pci 0000_00_1f.0''"
    by (simp only: replace_examples append.simps)
  have e: "title (Element ''cpu'' [(''arch'', ''x86_64'')] []) = ''CPU''"
    by (rule title_scheme
      [where dev = "''cpu''" and key = "''numaid''" and base = "''CPU''"
         and attrs = "[(''arch'', ''x86_64'')]" and elems = "[]",
       THEN conjunct2, THEN conjunct2, THEN conjunct2, THEN conjunct2, THEN conjunct2,
       THEN conjunct1, rule_format, OF h5])
  have "title (Element ''channel'' [(''id'', ''3'')] []) =
      (case ''channel'' of [] \<Rightarrow> [] | x # xs \<Rightarrow> to_upper x # map to_lower xs)"
    by (rule title_scheme
      [where dev = "''channel''" and attrs = "[(''id'', ''3'')]" and elems = "[]",
       THEN conjunct2, THEN conjunct2, THEN conjunct2, THEN conjunct2, THEN conjunct2,
       THEN conjunct2, rule_format, OF h6])
  then have f: "title (Element ''channel'' [(''id'', ''3'')] []) = ''Channel''"
    by (simp only: list.case case_letters_examples)
  have "title (Element ''NVSwitch'' [] []) =
      (case ''NVSwitch'' of [] \<Rightarrow> [] | x # xs \<Rightarrow> to_upper x # map to_lower xs)"
    by (rule title_scheme
      [where dev = "''NVSwitch''" and attrs = "[]" and elems = "[]",
       THEN conjunct2, THEN conjunct2, THEN conjunct2, THEN conjunct2, THEN conjunct2,
       THEN conjunct2, rule_format, OF h7])
  then have g: "title (Element ''NVSwitch'' [] []) = ''Nvswitch''"
    by (simp only: list.case case_letters_examples)
  from a b c d e f g show ?thesis by (intro conjI)
qed

text \<open>
  C6 as stated fails where the identifier is present and empty: for \<open><gpu dev=""/>\<close> the
  variable \<open>res\<close> holds the empty string, and the title is \<open>GPU\<close> without the space that
  a suffix would bring.
\<close>

theorem title_empty_value_counterexample:
  "res_of (Element ''gpu'' [(''dev'', '''')] []) = Some '''' \<and>
   title (Element ''gpu'' [(''dev'', '''')] []) = ''GPU'' \<and>
   title (Element ''gpu'' [(''dev'', '''')] []) \<noteq> ''GPU'' @ '' '' @ ''''"
  by (simp add: title_res res_of_gpu_empty upper_gpu_cpu)

lemma name_of_node_statement: "name_of (node_statement e) = node_name e"
  by (simp add: node_statement_def)

lemma nodes_topology_graph: "nodes (topology_graph root) = map node_statement (elements root)"
  by (simp add: topology_graph_def nodes_build nodes_initial_graph)

lemma res_of_gpu_zero: "res_of (Element ''gpu'' ((''dev'', ''0'') # attrs) elems) = Some ''0''"
  by (simp add: res_of_def attr_map_def replace_def)

text \<open>
  C8. The names under which nodes are created are those of the naming scheme, for every
  document; and the scheme is not injective: there is a document with two different
  elements at different places, of the same type and with the same identifier, whose
  nodes are created under the same name.
\<close>

theorem node_names_collide:
  "(\<forall>root. map name_of (nodes (topology_graph root)) = map node_name (elements root)) \<and>
   (\<exists>root i j.
      i < j \<and> j < length (elements root) \<and>
      elements root ! i \<noteq> elements root ! j \<and>
      tag (elements root ! i) = tag (elements root ! j) \<and>
      res_of (elements root ! i) = res_of (elements root ! j) \<and>
      node_name (elements root ! i) = node_name (elements root ! j) \<and>
      name_of (nodes (topology_graph root) ! i) = name_of (nodes (topology_graph root) ! j))"
proof (intro conjI allI)
  fix root
  show "map name_of (nodes (topology_graph root)) = map node_name (elements root)"
    by (simp add: nodes_topology_graph name_of_node_statement)
next
  let ?root =
    "Element ''system'' []
       [Element ''cpu'' [(''numaid'', ''0'')] [Element ''gpu'' [(''dev'', ''0''), (''rank'', ''0'')] []],
        Element ''cpu'' [(''numaid'', ''1'')] [Element ''gpu'' [(''dev'', ''0''), (''rank'', ''1'')] []]]"
  have e: "elements ?root =
     [?root,
      Element ''cpu'' [(''numaid'', ''0'')] [Element ''gpu'' [(''dev'', ''0''), (''rank'', ''0'')] []],
      Element ''gpu'' [(''dev'', ''0''), (''rank'', ''0'')] [],
      Element ''cpu'' [(''numaid'', ''1'')] [Element ''gpu'' [(''dev'', ''0''), (''rank'', ''1'')] []],
      Element ''gpu'' [(''dev'', ''0''), (''rank'', ''1'')] []]"
    by simp
  have "(2::nat) < 4 \<and> 4 < length (elements ?root) \<and>
      elements ?root ! 2 \<noteq> elements ?root ! 4 \<and>
      tag (elements ?root ! 2) = tag (elements ?root ! 4) \<and>
      res_of (elements ?root ! 2) = res_of (elements ?root ! 4) \<and>
      node_name (elements ?root ! 2) = node_name (elements ?root ! 4) \<and>
      name_of (nodes (topology_graph ?root) ! 2) = name_of (nodes (topology_graph ?root) ! 4)"
    unfolding nodes_topology_graph e
    by (simp add: name_of_node_statement node_name_def res_of_gpu_zero)
  then show "\<exists>root i j.
      i < j \<and> j < length (elements root) \<and>
      elements root ! i \<noteq> elements root ! j \<and>
      tag (elements root ! i) = tag (elements root ! j) \<and>
      res_of (elements root ! i) = res_of (elements root ! j) \<and>
      node_name (elements root ! i) = node_name (elements root ! j) \<and>
      name_of (nodes (topology_graph root) ! i) = name_of (nodes (topology_graph root) ! j)"
    by (intro exI)
qed


section \<open>The command line of the renderer\<close>

text \<open>
  C4. The renderer called with the single argument \<open>-h\<close> prints the usage text and exits
  with code 1, not 0: the check of the number of arguments comes first and ends the
  program before the options are read. The branch for \<open>-h\<close> is reached, and exits with
  code 0, only on a command line of exactly four arguments.
\<close>

theorem help_flag_alone_exits_1:
  "xml_to_png [''xml_to_png.py'', ''-h''] = \<lparr>printed = [usage], ending = Exit 1\<rparr> \<and>
   xml_to_png [''xml_to_png.py'', ''-h'', ''-i'', ''foo.xml'', ''out'']
     = \<lparr>printed = [usage], ending = Exit 0\<rparr>"
  by (simp add: xml_to_png_def)

lemma scan_opts_None:
  "scan_opts opts input_file output_file = None \<longleftrightarrow> ''-h'' \<in> fst ` set opts"
  by (induction opts input_file output_file rule: scan_opts.induct) auto

lemma scan_opts_output:
  "scan_opts opts input_file output_file = Some (i, out) \<Longrightarrow> ''-o'' \<notin> fst ` set opts
   \<Longrightarrow> out = output_file"
  by (induction opts input_file output_file rule: scan_opts.induct)
     (auto split: if_splits)

text \<open>
  C7, as amended. On a command line whose options, as \<open>getopt\<close> reads them, include \<open>-i\<close>
  and include neither \<open>-o\<close> nor \<open>-h\<close>, the renderer prints the usage text and exits with
  code 1, and \<open>main\<close> is not called.
\<close>

theorem input_without_output:
  assumes "getopt [] (drop 1 argv) ''hi:o:'' = Some (opts, args)"
    and "''-i'' \<in> fst ` set opts"
    and "''-o'' \<notin> fst ` set opts"
    and "''-h'' \<notin> fst ` set opts"
  shows "xml_to_png argv = \<lparr>printed = [usage], ending = Exit 1\<rparr> \<and>
         (\<forall>input_file output_file. ending (xml_to_png argv) \<noteq> Calls_main input_file output_file)"
proof (cases "length argv \<noteq> 5")
  case True
  then show ?thesis by (simp add: xml_to_png_def)
next
  case False
  from assms(4) obtain i out where s: "scan_opts opts None None = Some (i, out)"
    using scan_opts_None [of opts None None] by (cases "scan_opts opts None None") auto
  from s assms(3) have "out = None" by (rule scan_opts_output)
  with False assms(1) s show ?thesis by (simp add: xml_to_png_def)
qed

text \<open>
  The example of the specification, only \<open>-i foo.xml\<close>, and a command line of four
  arguments that passes the check of their number.
\<close>

theorem input_without_output_witness:
  "xml_to_png [''xml_to_png.py'', ''-i'', ''foo.xml''] = \<lparr>printed = [usage], ending = Exit 1\<rparr> \<and>
   xml_to_png [''xml_to_png.py'', ''-i'', ''foo.xml'', ''-i'', ''bar.xml'']
     = \<lparr>printed = [usage], ending = Exit 1\<rparr>"
proof -
  have g1: "getopt [] (drop 1 [''xml_to_png.py'', ''-i'', ''foo.xml'']) ''hi:o:''
      = Some ([(''-i'', ''foo.xml'')], [])"
    by simp
  have g2: "getopt [] (drop 1 [''xml_to_png.py'', ''-i'', ''foo.xml'', ''-i'', ''bar.xml'']) ''hi:o:''
      = Some ([(''-i'', ''foo.xml''), (''-i'', ''bar.xml'')], [])"
    by simp
  have a: "xml_to_png [''xml_to_png.py'', ''-i'', ''foo.xml'']
      = \<lparr>printed = [usage], ending = Exit 1\<rparr>"
    by (rule input_without_output [OF g1, THEN conjunct1]) simp_all
  have b: "xml_to_png [''xml_to_png.py'', ''-i'', ''foo.xml'', ''-i'', ''bar.xml'']
      = \<lparr>printed = [usage], ending = Exit 1\<rparr>"
    by (rule input_without_output [OF g2, THEN conjunct1]) simp_all
  from a b show ?thesis by (intro conjI)
qed

text \<open>
  C7 as stated fails when \<open>-h\<close> is given as well: with \<open>-i foo.xml -h -h\<close> there is an
  input option and no output option, and the program exits with code 0.
\<close>

theorem input_without_output_help_counterexample:
  "getopt [] (drop 1 [''xml_to_png.py'', ''-i'', ''foo.xml'', ''-h'', ''-h'']) ''hi:o:''
     = Some ([(''-i'', ''foo.xml''), (''-h'', ''''), (''-h'', '''')], []) \<and>
   xml_to_png [''xml_to_png.py'', ''-i'', ''foo.xml'', ''-h'', ''-h'']
     = \<lparr>printed = [usage], ending = Exit 0\<rparr> \<and>
   ending (xml_to_png [''xml_to_png.py'', ''-i'', ''foo.xml'', ''-h'', ''-h'']) \<noteq> Exit 1"
  by (simp add: xml_to_png_def)


section \<open>The trigger\<close>

text \<open>
  C3. A process started by the launcher (\<open>RANK\<close>, \<open>LOCAL_RANK\<close> and \<open>WORLD_SIZE\<close> are
  integers) on a machine with CUDA, where \<open>WORLD_SIZE\<close> is greater than the number of
  devices, exits with code 1; it prints the error message when its rank is 0 and prints
  nothing otherwise.
\<close>

theorem world_size_exceeds_devices:
  assumes "environ ''RANK'' = Num rank"
    and "environ ''LOCAL_RANK'' = Num local_rank"
    and "environ ''WORLD_SIZE'' = Num world_size"
    and "is_available"
    and "world_size > device_count"
  shows "finish (dump_topo_main environ is_available device_count library_calls_return out_file)
           = Sys_exit 1 \<and>
         stdout (dump_topo_main environ is_available device_count library_calls_return out_file)
           = (if rank = 0 then
                [''Error: world size ('' @ str_int world_size @
                 '') is greater than number of GPUs ('' @ str_int device_count @ '').'']
              else [])"
  using assms by (simp add: dump_topo_main_def environ_int_def Let_def)

lemma str_int_digit: "str_int 9 = ''9''" "str_int 8 = ''8''"
  by (simp_all add: str_int_def digits.simps)

text \<open>The example of the specification, 9 processes and 8 devices, at ranks 0 and 3.\<close>

theorem world_size_exceeds_devices_witness:
  "finish (dump_topo_main (torchrun_environ 0 0 9) True 8 True ''/tmp/nccl_topology.xml'')
     = Sys_exit 1 \<and>
   stdout (dump_topo_main (torchrun_environ 0 0 9) True 8 True ''/tmp/nccl_topology.xml'')
     = [''Error: world size (9) is greater than number of GPUs (8).''] \<and>
   finish (dump_topo_main (torchrun_environ 3 3 9) True 8 True ''/tmp/nccl_topology.xml'')
     = Sys_exit 1 \<and>
   stdout (dump_topo_main (torchrun_environ 3 3 9) True 8 True ''/tmp/nccl_topology.xml'') = []"
  using
    world_size_exceeds_devices
      [of "torchrun_environ 0 0 9" 0 0 9 True 8 True "''/tmp/nccl_topology.xml''"]
    world_size_exceeds_devices
      [of "torchrun_environ 3 3 9" 3 3 9 True 8 True "''/tmp/nccl_topology.xml''"]
  by (simp add: torchrun_environ_def str_int_digit)

text \<open>
  C9. Without CUDA, a process started by the launcher prints the diagnostic and exits
  with code 1, whatever its rank.
\<close>

theorem cuda_unavailable_every_rank:
  assumes "environ ''RANK'' = Num rank"
    and "environ ''LOCAL_RANK'' = Num local_rank"
  shows "stdout (dump_topo_main environ False device_count library_calls_return out_file)
           = [''CUDA is not available. Run this on a GPU machine.''] \<and>
         finish (dump_topo_main environ False device_count library_calls_return out_file)
           = Sys_exit 1"
  using assms by (simp add: dump_topo_main_def environ_int_def Let_def)

text \<open>Ranks 0 and 5 of a launch on a machine without CUDA.\<close>

theorem cuda_unavailable_every_rank_witness:
  "stdout (dump_topo_main (torchrun_environ 0 0 8) False 0 True ''/tmp/nccl_topology.xml'')
     = [''CUDA is not available. Run this on a GPU machine.''] \<and>
   finish (dump_topo_main (torchrun_environ 0 0 8) False 0 True ''/tmp/nccl_topology.xml'')
     = Sys_exit 1 \<and>
   stdout (dump_topo_main (torchrun_environ 5 5 8) False 0 True ''/tmp/nccl_topology.xml'')
     = [''CUDA is not available. Run this on a GPU machine.''] \<and>
   finish (dump_topo_main (torchrun_environ 5 5 8) False 0 True ''/tmp/nccl_topology.xml'')
     = Sys_exit 1"
  using
    cuda_unavailable_every_rank
      [of "torchrun_environ 0 0 8" 0 0 0 True "''/tmp/nccl_topology.xml''"]
    cuda_unavailable_every_rank
      [of "torchrun_environ 5 5 8" 5 5 0 True "''/tmp/nccl_topology.xml''"]
  by (simp add: torchrun_environ_def)

end
